theory Spec2Isabelle
  imports Main
begin

section \<open>Python string operations used by the assistant\<close>

text \<open>
  The command interpreter of \<^verbatim>\<open>app3.py\<close> works on Python \<^verbatim>\<open>str\<close> values with
  \<^verbatim>\<open>lower\<close>, \<^verbatim>\<open>strip\<close>, \<^verbatim>\<open>split\<close>, \<^verbatim>\<open>replace\<close>, \<^verbatim>\<open>in\<close>, \<^verbatim>\<open>startswith\<close>,
  \<^verbatim>\<open>endswith\<close> and \<^verbatim>\<open>join\<close>. A string is a list of characters; the operations
  below follow CPython on ASCII text (case mapping and white space of characters outside
  ASCII are not modelled: such characters are left unchanged and are never white space).
\<close>

definition lower_char :: "char \<Rightarrow> char" where
  "lower_char c =
     (case map_of (zip ''ABCDEFGHIJKLMNOPQRSTUVWXYZ'' ''abcdefghijklmnopqrstuvwxyz'') c of
        Some d \<Rightarrow> d
      | None \<Rightarrow> c)"

definition lower :: "string \<Rightarrow> string" where
  "lower s = map lower_char s"

text \<open>White space as \<^verbatim>\<open>str.isspace\<close> sees it on ASCII: TAB, LF, VT, FF, CR, FS, GS, RS, US, SPACE.\<close>

definition is_space :: "char \<Rightarrow> bool" where
  "is_space c = (c \<in> set [CHR 0x09, CHR 0x0A, CHR 0x0B, CHR 0x0C, CHR 0x0D,
                            CHR 0x1C, CHR 0x1D, CHR 0x1E, CHR 0x1F, CHR 0x20])"

definition lstrip :: "string \<Rightarrow> string" where
  "lstrip s = dropWhile is_space s"

definition rstrip :: "string \<Rightarrow> string" where
  "rstrip s = rev (dropWhile is_space (rev s))"

definition strip :: "string \<Rightarrow> string" where
  "strip s = rstrip (lstrip s)"

text \<open>\<^verbatim>\<open>s.rstrip(chars)\<close>: drop the trailing characters that occur in \<open>chars\<close>.\<close>

definition rstrip_chars :: "string \<Rightarrow> string \<Rightarrow> string" where
  "rstrip_chars chars s = rev (dropWhile (\<lambda>c. c \<in> set chars) (rev s))"

definition startswith :: "string \<Rightarrow> string \<Rightarrow> bool" where
  "startswith s p = (take (length p) s = p)"

definition endswith :: "string \<Rightarrow> string \<Rightarrow> bool" where
  "endswith s p = (length p \<le> length s \<and> drop (length s - length p) s = p)"

text \<open>\<^verbatim>\<open>s.find(sub)\<close>: the index of the first occurrence, \<open>None\<close> for Python's \<open>-1\<close>.\<close>

fun find_sub :: "string \<Rightarrow> string \<Rightarrow> nat option" where
  "find_sub sub [] = (if sub = [] then Some 0 else None)"
| "find_sub sub (c # cs) =
     (if startswith (c # cs) sub then Some 0
      else (case find_sub sub cs of None \<Rightarrow> None | Some i \<Rightarrow> Some (Suc i)))"

text \<open>\<^verbatim>\<open>sub in s\<close>.\<close>

definition contains :: "string \<Rightarrow> string \<Rightarrow> bool" where
  "contains sub s = (find_sub sub s \<noteq> None)"

text \<open>\<^verbatim>\<open>s.split(sep, 1)\<close>: one or two pieces, cut at the first occurrence of \<open>sep\<close>.\<close>

definition split1 :: "string \<Rightarrow> string \<Rightarrow> string list" where
  "split1 sep s =
     (case find_sub sep s of
        None \<Rightarrow> [s]
      | Some i \<Rightarrow> [take i s, drop (i + length sep) s])"

text \<open>
  \<^verbatim>\<open>s.split(sep)\<close>: cut at every occurrence of \<open>sep\<close>, scanning from the left. Python
  raises \<^verbatim>\<open>ValueError\<close> on an empty separator; every call site passes a non-empty
  literal, and the model leaves the string whole there.
\<close>

function split_all :: "string \<Rightarrow> string \<Rightarrow> string list" where
  "split_all sep s =
     (if sep = [] then [s]
      else (case find_sub sep s of
              None \<Rightarrow> [s]
            | Some i \<Rightarrow> take i s # split_all sep (drop (i + length sep) s)))"
  by pat_completeness auto

lemma find_sub_le: "find_sub sub s = Some i \<Longrightarrow> i + length sub \<le> length s"
proof (induction s arbitrary: i)
  case Nil
  then show ?case by (simp split: if_splits)
next
  case (Cons c cs)
  show ?case
  proof (cases "startswith (c # cs) sub")
    case True
    with Cons.prems have "i = 0" by simp
    moreover have "length sub \<le> length (c # cs)"
    proof -
      from True have "length (take (length sub) (c # cs)) = length sub"
        unfolding startswith_def by (rule arg_cong)
      then show ?thesis by simp
    qed
    ultimately show ?thesis by simp
  next
    case False
    with Cons.prems obtain j where j: "find_sub sub cs = Some j" "i = Suc j"
      by (auto split: option.splits)
    from Cons.IH[OF j(1)] j(2) show ?thesis by simp
  qed
qed

termination split_all
proof (relation "measure (\<lambda>(sep, s). length s)")
  show "wf (measure (\<lambda>(sep, s). length s))" by simp
next
  fix sep s :: string and i :: nat
  assume "sep \<noteq> []" and "find_sub sep s = Some i"
  then have "0 < length sep" and "i + length sep \<le> length s"
    using find_sub_le by auto
  then have "length s - (i + length sep) < length s"
    by linarith
  then show "((sep, drop (i + length sep) s), (sep, s)) \<in> measure (\<lambda>(sep, s). length s)"
    by simp
qed

declare split_all.simps [simp del]

text \<open>
  \<^verbatim>\<open>s.replace(old, new)\<close> for a non-empty \<open>old\<close>: every occurrence, left to right,
  without overlap. (With an empty \<open>old\<close> Python inserts \<open>new\<close> around every character;
  no call site does that, and the model returns the string unchanged.)
\<close>

function replace :: "string \<Rightarrow> string \<Rightarrow> string \<Rightarrow> string" where
  "replace old new [] = []"
| "replace old new (c # cs) =
     (if old \<noteq> [] \<and> startswith (c # cs) old
      then new @ replace old new (drop (length old) (c # cs))
      else c # replace old new cs)"
  by pat_completeness auto

termination replace
  by (relation "measure (\<lambda>(old, new, s). length s)") auto

text \<open>\<^verbatim>\<open>s.split()\<close>: the maximal runs of characters that are not white space.\<close>

fun split_ws_aux :: "string \<Rightarrow> string \<Rightarrow> string list" where
  "split_ws_aux w [] = (if w = [] then [] else [rev w])"
| "split_ws_aux w (c # cs) =
     (if is_space c
      then (if w = [] then split_ws_aux [] cs else rev w # split_ws_aux [] cs)
      else split_ws_aux (c # w) cs)"

definition split_ws :: "string \<Rightarrow> string list" where
  "split_ws s = split_ws_aux [] s"

text \<open>\<^verbatim>\<open>sep.join(xs)\<close>.\<close>

fun join :: "string \<Rightarrow> string list \<Rightarrow> string" where
  "join sep [] = []"
| "join sep [x] = x"
| "join sep (x # y # ys) = x @ sep @ join sep (y # ys)"

text \<open>
  \<^verbatim>\<open>s[i:j]\<close> with Python's treatment of negative and out-of-range bounds.
\<close>

definition slice_bound :: "nat \<Rightarrow> int \<Rightarrow> nat" where
  "slice_bound n i = (if i < 0 then nat (max (i + int n) 0) else min (nat i) n)"

definition py_slice :: "'a list \<Rightarrow> int \<Rightarrow> int \<Rightarrow> 'a list" where
  "py_slice xs i j =
     (let lo = slice_bound (length xs) i; hi = slice_bound (length xs) j
      in take (hi - lo) (drop lo xs))"

text \<open>A value between apostrophes, as in the f-string \<^verbatim>\<open>f"'{x}'"\<close>.\<close>

definition quoted :: "string \<Rightarrow> string" where
  "quoted x = [CHR 0x27] @ x @ [CHR 0x27]"

text \<open>\<^verbatim>\<open>str(n)\<close> for a natural number.\<close>

definition digit_char :: "nat \<Rightarrow> char" where
  "digit_char d = (''0123456789'' ! (d mod 10))"

function str_of_nat :: "nat \<Rightarrow> string" where
  "str_of_nat n = (if n < 10 then [digit_char n] else str_of_nat (n div 10) @ [digit_char n])"
  by pat_completeness auto

termination str_of_nat
  by (relation "measure (\<lambda>n. n)") auto

declare str_of_nat.simps [simp del]

section \<open>Collaborators\<close>

text \<open>
  Everything \<^verbatim>\<open>app3.py\<close> obtains from outside itself is a field of the environment:
  the language table \<^verbatim>\<open>googletrans.LANGUAGES\<close> (a dictionary from code to name, kept
  as an association list in the dictionary's iteration order), the import flags, the
  file system, the translation, speech-recognition and YouTube services, and the clock.
  A call that can raise returns \<open>Inl\<close> of the exception. The exception classes the
  source distinguishes are \<^verbatim>\<open>sr.UnknownValueError\<close>, \<^verbatim>\<open>sr.RequestError\<close> and
  \<^verbatim>\<open>ValueError\<close>; every other one is caught, if at all, as \<^verbatim>\<open>Exception\<close>. Each
  carries the text that \<^verbatim>\<open>str(e)\<close> prints.
\<close>

datatype exn = UnknownValueError string | RequestError string | ValueError string
  | Exception string

fun str_exn :: "exn \<Rightarrow> string" where
  "str_exn (UnknownValueError m) = m"
| "str_exn (RequestError m) = m"
| "str_exn (ValueError m) = m"
| "str_exn (Exception m) = m"

text \<open>
  What the source reads from a \<^verbatim>\<open>pytube.YouTube\<close> object: its title, a property
  whose evaluation can raise, and the subtype of its first audio-only stream (\<open>None\<close>
  when \<^verbatim>\<open>streams.filter(only_audio=True).first()\<close> finds no stream).
\<close>

record yt_video =
  yt_title :: "exn + string"
  yt_audio_subtype :: "string option"

record env =
  LANGUAGES :: "(string \<times> string) list"
  MOVIEPY_AVAILABLE :: bool
  PYTUBE_AVAILABLE :: bool
  REQUESTS_AVAILABLE :: bool
  FILE_STORAGE_PATH :: string
  os_name :: string
  os_path_join :: "string \<Rightarrow> string \<Rightarrow> string"
  os_path_basename :: "string \<Rightarrow> string"
  os_path_splitext :: "string \<Rightarrow> string \<times> string"
  os_path_exists :: "string \<Rightarrow> bool"
  os_path_isfile :: "string \<Rightarrow> bool"
  os_listdir :: "string \<Rightarrow> exn + string list"
  get_close_matches :: "string \<Rightarrow> string list \<Rightarrow> string list"
  read_text_file :: "string \<Rightarrow> exn + string"
  docx_paragraphs :: "string \<Rightarrow> exn + string list"
  pdf_pages :: "string \<Rightarrow> exn + string list"
  pptx_slides :: "string \<Rightarrow> exn + string list list"
  os_startfile :: "string \<Rightarrow> exn + unit"
  xdg_open :: "string \<Rightarrow> exn + unit"
  new_tempfile :: "exn + string"
  tempfile_gettempdir :: string
  write_audiofile :: "string \<Rightarrow> string \<Rightarrow> exn + unit"
  speech_to_text :: "bool \<Rightarrow> string \<Rightarrow> string \<Rightarrow> exn + string"
  translator_detect :: "string \<Rightarrow> exn + string"
  translator_translate :: "string \<Rightarrow> string \<Rightarrow> exn + string"
  url_quote :: "string \<Rightarrow> string"
  requests_get :: "string \<Rightarrow> exn + (nat \<times> string)"
  re_findall_video_ids :: "string \<Rightarrow> (string \<times> string) list"
  pytube_YouTube :: "string \<Rightarrow> exn + yt_video"
  stream_download :: "string \<Rightarrow> string \<Rightarrow> string \<Rightarrow> exn + string option"
  parse_float :: "string \<Rightarrow> string option"
  progress_percent :: "int \<Rightarrow> nat \<Rightarrow> int"
  now_time :: string
  now_date :: string

text \<open>
  \<^item> \<open>speech_to_text adjust path lang\<close> is \<^verbatim>\<open>sr.AudioFile(path)\<close>, an optional
    \<^verbatim>\<open>adjust_for_ambient_noise\<close>, \<^verbatim>\<open>record\<close> and \<^verbatim>\<open>recognize_google(audio, language=lang)\<close>;
  \<^item> \<open>translator_translate text dest\<close> is \<^verbatim>\<open>translator.translate(text, dest=dest).text\<close>,
    \<open>translator_detect text\<close> is \<^verbatim>\<open>translator.detect(text).lang\<close>;
  \<^item> \<open>requests_get url\<close> is the status code and the body of \<^verbatim>\<open>requests.get\<close>,
    \<open>re_findall_video_ids\<close> the \<^verbatim>\<open>re.findall\<close> of the two-group video-id pattern;
  \<^item> \<open>parse_float\<close> is \<^verbatim>\<open>float\<close> (\<open>None\<close> for its \<^verbatim>\<open>ValueError\<close>), giving the
    printed form of the number;
  \<^item> \<open>progress_percent pos len\<close> is the floating-point expression
    \<^verbatim>\<open>int((pos / len) * 100)\<close>.
  \<^item> \<open>pptx_slides path\<close> lists, slide by slide, the texts of the shapes that have one;
  \<^item> \<open>get_close_matches\<close> is \<^verbatim>\<open>difflib.get_close_matches\<close> with \<^verbatim>\<open>n=3, cutoff=0.6\<close>.
  The temporary audio files that the transcription functions create and remove are not
  part of the model.
\<close>

definition SUPPORTED_EXTENSIONS :: "string list" where
  "SUPPORTED_EXTENSIONS =
     [''.txt'', ''.pdf'', ''.docx'', ''.pptx'', ''.mp4'', ''.mov'', ''.avi'', ''.mkv'', ''.wmv'']"

text \<open>\<^verbatim>\<open>LANGUAGES.get(code, default)\<close>.\<close>

definition LANGUAGES_get :: "env \<Rightarrow> string \<Rightarrow> string \<Rightarrow> string" where
  "LANGUAGES_get ev code dflt = (case map_of (LANGUAGES ev) code of Some name \<Rightarrow> name | None \<Rightarrow> dflt)"

text \<open>Python truthiness of a value that is \<^verbatim>\<open>None\<close> or a string.\<close>

definition truthy :: "string option \<Rightarrow> bool" where
  "truthy x = (case x of None \<Rightarrow> False | Some v \<Rightarrow> v \<noteq> [])"

section \<open>The reading session\<close>

text \<open>
  The three module-level variables of \<^verbatim>\<open>app3.py\<close> (\<^verbatim>\<open>current_file_content\<close>,
  \<^verbatim>\<open>read_position\<close>, \<^verbatim>\<open>translation_language\<close>) form the session; every function that
  declares them \<^verbatim>\<open>global\<close> takes the session and returns the new one.
\<close>

record session =
  current_file_content :: string
  read_position :: int
  translation_language :: string

definition INITIAL_FILE_CONTENT :: string where
  "INITIAL_FILE_CONTENT = ''''"

definition INITIAL_READ_POSITION :: int where
  "INITIAL_READ_POSITION = 0"

definition INITIAL_TRANSLATION_LANGUAGE :: string where
  "INITIAL_TRANSLATION_LANGUAGE = ''en''"

definition initial_session :: session where
  "initial_session =
     \<lparr>current_file_content = INITIAL_FILE_CONTENT,
      read_position = INITIAL_READ_POSITION,
      translation_language = INITIAL_TRANSLATION_LANGUAGE\<rparr>"

text \<open>
  A response is the Python dictionary handed to \<^verbatim>\<open>jsonify\<close>: a finite map from keys to
  JSON values. A float is kept as its printed form.
\<close>

datatype pyval = Str string | Bool bool | Num int | Float string

type_synonym response = "string \<rightharpoonup> pyval"

subsection \<open>Reset\<close>

definition handle_reset_command :: "session \<Rightarrow> response \<times> session" where
  "handle_reset_command s =
     ([''status'' \<mapsto> Str ''success'',
       ''action'' \<mapsto> Str ''stop_read'',
       ''message'' \<mapsto> Str ''Assistant memory cleared. Current file closed, and reading stopped. Ready for the next command.'',
       ''has_content'' \<mapsto> Bool False],
      s\<lparr>current_file_content := INITIAL_FILE_CONTENT,
        read_position := INITIAL_READ_POSITION\<rparr>)"

section \<open>Language registry and command parser\<close>

text \<open>
  \<^verbatim>\<open>get_language_code\<close> walks \<^verbatim>\<open>LANGUAGES.items()\<close> and returns the code of the first
  entry whose name equals the given one, case ignored.
\<close>

fun get_language_code :: "(string \<times> string) list \<Rightarrow> string \<Rightarrow> string option" where
  "get_language_code [] language_name = None"
| "get_language_code ((code, name) # items) language_name =
     (if lower name = lower language_name then Some code
      else get_language_code items language_name)"

text \<open>The loop that cuts the command at the first supported extension it contains.\<close>

fun remove_filename :: "string list \<Rightarrow> string \<Rightarrow> string" where
  "remove_filename [] command = command"
| "remove_filename (ext # exts) command =
     (if contains ext command then strip (split1 ext command ! 0)
      else remove_filename exts command)"

text \<open>
  The loop \<^verbatim>\<open>for i in range(min(3, len(parts)))\<close>: the first prefix of one, two or
  three words that names a language with a non-empty code.
\<close>

fun probe_source :: "(string \<times> string) list \<Rightarrow> string list \<Rightarrow> nat list \<Rightarrow> string option" where
  "probe_source langs parts [] = None"
| "probe_source langs parts (i # rest) =
     (let code = get_language_code langs (join '' '' (take (i + 1) parts))
      in if truthy code then code else probe_source langs parts rest)"

text \<open>
  Steps 1 and 2 of \<^verbatim>\<open>extract_language_codes\<close>: the target named after
  \<open>translate to\<close> and the source named after \<open>from\<close>, both read from the cleaned
  command and the registry.
\<close>

definition parse_target :: "env \<Rightarrow> string \<Rightarrow> string option" where
  "parse_target ev clean_command =
     (if contains ''translate to'' clean_command
      then (let parts = split_ws (strip (split1 ''translate to'' clean_command ! 1));
                target_name_parts = takeWhile (\<lambda>part. part \<noteq> ''from'') parts;
                target_name = join '' '' target_name_parts
            in get_language_code (LANGUAGES ev) target_name)
      else None)"

definition parse_source :: "env \<Rightarrow> string \<Rightarrow> string option" where
  "parse_source ev clean_command =
     (if contains ''from'' clean_command
      then (let parts = split_ws (strip (split1 ''from'' clean_command ! 1))
            in if parts \<noteq> []
               then probe_source (LANGUAGES ev) parts [0 ..< min 3 (length parts)]
               else None)
      else None)"

text \<open>
  The function itself: steps 3 to 5 apply the defaults. Step 3 reads the global
  \<^verbatim>\<open>translation_language\<close>; no global is assigned.
\<close>

definition extract_language_codes :: "env \<Rightarrow> session \<Rightarrow> string \<Rightarrow> string option \<times> string option" where
  "extract_language_codes ev s command0 =
     (let command = lower command0;
          clean_command = remove_filename SUPPORTED_EXTENSIONS command;
          target_code = parse_target ev clean_command;
          source_code = parse_source ev clean_command;
          target_code =
            (if target_code = None \<and> (contains ''transcribe'' command \<or> contains ''translate'' command)
             then Some (translation_language s)
             else target_code);
          source_code =
            (if (source_code = Some ''hi'' \<or> (contains ''transcribe'' command \<and> source_code = None))
                \<and> (contains ''hindi'' command \<or> contains ''hinglish'' command)
             then Some ''hi-IN''
             else source_code);
          source_code =
            (if source_code = None \<and> contains ''transcribe'' command then Some ''en''
             else source_code)
      in (target_code, source_code))"

text \<open>The loop over the separators that end a file name.\<close>

fun cut_at_separators :: "string list \<Rightarrow> string \<Rightarrow> string" where
  "cut_at_separators [] filename_candidate = filename_candidate"
| "cut_at_separators (separator # rest) filename_candidate =
     cut_at_separators rest
       (if contains separator filename_candidate
        then split_all separator filename_candidate ! 0
        else filename_candidate)"

definition file_keywords :: "string list" where
  "file_keywords =
     [''open'', ''read'', ''play'', ''transcribe'', ''file'', ''document'', ''video'',
      ''docx'', ''pdf'', ''pptx'', ''txt'', ''mp4'', ''mov'', ''avi'', ''mkv'', ''wmv'']"

text \<open>The loop over the keywords: the first one whose remainder looks like a file name.\<close>

fun scan_keywords :: "string list \<Rightarrow> string \<Rightarrow> string option" where
  "scan_keywords [] command = None"
| "scan_keywords (keyword # rest) command =
     (if contains keyword command
      then (let parts = split1 keyword command
            in if length parts > 1
               then (let filename_candidate =
                           cut_at_separators ['' and '', '' to '', '' in '', '' from '']
                             (strip (parts ! 1))
                     in if contains ''.'' filename_candidate \<and> length filename_candidate > 3
                        then Some (rstrip_chars ''.'' (strip filename_candidate))
                        else scan_keywords rest command)
               else scan_keywords rest command)
      else scan_keywords rest command)"

definition extract_filename_from_command :: "string \<Rightarrow> string option" where
  "extract_filename_from_command command0 =
     (let command = lower command0;
          command = replace '' dot '' ''.'' command;
          command = replace '' point '' ''.'' command;
          command = replace '' mp 4'' '' mp4'' command
      in scan_keywords file_keywords command)"

text \<open>The pieces of \<^verbatim>\<open>extract_youtube_query\<close>.\<close>

fun strip_trigger :: "string list \<Rightarrow> string \<Rightarrow> string" where
  "strip_trigger [] command = command"
| "strip_trigger (trigger # rest) command =
     (if startswith command trigger then strip (drop (length trigger) command)
      else strip_trigger rest command)"

fun strip_languages :: "(string \<times> string) list \<Rightarrow> string \<Rightarrow> string" where
  "strip_languages [] command = command"
| "strip_languages ((lang_code, lang_name) # items) command =
     (let command =
            (if contains (''to '' @ lower lang_name) command
             then strip (replace (''to '' @ lower lang_name) [] command)
             else command);
          command =
            (if contains (''from '' @ lower lang_name) command
             then strip (replace (''from '' @ lower lang_name) [] command)
             else command)
      in strip_languages items command)"

definition extract_youtube_query :: "env \<Rightarrow> string \<Rightarrow> string option" where
  "extract_youtube_query ev command0 =
     (let command = strip (lower command0);
          command =
            strip_trigger [''play '', ''search for '', ''search '', ''find '', ''show '',
                           ''watch '', ''transcribe '', ''translate ''] command;
          command =
            (if endswith command ''on youtube'' then strip (take (length command - 10) command)
             else if endswith command ''in youtube'' then strip (take (length command - 10) command)
             else if endswith command ''youtube'' then strip (take (length command - 7) command)
             else command);
          command = strip_languages (LANGUAGES ev) command;
          command = strip (replace '' with '' '' '' (replace '' and '' '' '' command))
      in if command \<noteq> [] then Some (join '' '' (split_ws command)) else None)"

section \<open>Session operations\<close>

subsection \<open>Reading the next chunk\<close>

text \<open>
  The \<^verbatim>\<open>try\<close> around the translation catches every \<^verbatim>\<open>Exception\<close> and passes: the
  chunk then stays the original one.
\<close>

definition translate_chunk :: "env \<Rightarrow> session \<Rightarrow> string \<Rightarrow> string" where
  "translate_chunk ev s original_chunk =
     (if translation_language s \<noteq> ''en''
      then (case translator_translate ev original_chunk (translation_language s) of
              Inr text \<Rightarrow> text
            | Inl e \<Rightarrow> original_chunk)
      else original_chunk)"

definition get_next_chunk :: "env \<Rightarrow> session \<Rightarrow> int \<Rightarrow> response \<times> session" where
  "get_next_chunk ev s chunk_size =
     (if current_file_content s = [] then
        ([''status'' \<mapsto> Str ''done'', ''chunk'' \<mapsto> Str [],
          ''message'' \<mapsto> Str ''No file loaded.''], s)
      else if read_position s \<ge> int (length (current_file_content s)) then
        ([''status'' \<mapsto> Str ''done'', ''chunk'' \<mapsto> Str [],
          ''message'' \<mapsto> Str ''End of file reached.''],
         s\<lparr>read_position := int (length (current_file_content s))\<rparr>)
      else
        (let chunk_end = min (read_position s + chunk_size) (int (length (current_file_content s)));
             original_chunk = py_slice (current_file_content s) (read_position s) chunk_end;
             translated_chunk = translate_chunk ev s original_chunk
         in ([''status'' \<mapsto> Str ''reading'',
              ''chunk'' \<mapsto> Str translated_chunk,
              ''message'' \<mapsto> Str (''Reading chunk in ''
                 @ LANGUAGES_get ev (translation_language s) (translation_language s) @ ''.''),
              ''progress'' \<mapsto> Num (progress_percent ev chunk_end (length (current_file_content s)))],
             s\<lparr>read_position := chunk_end\<rparr>)))"

text \<open>The handler of \<^verbatim>\<open>/read_chunk\<close>.\<close>

definition read_chunk_handler :: "env \<Rightarrow> session \<Rightarrow> response \<times> session" where
  "read_chunk_handler ev s = get_next_chunk ev s 500"

subsection \<open>Changing the target language\<close>

text \<open>
  \<^verbatim>\<open>LANGUAGES[lang_code]\<close> raises \<^verbatim>\<open>KeyError\<close> on a missing key, after the assignment
  to \<^verbatim>\<open>translation_language\<close>; the function therefore returns an exception or a
  response, and the session in either case.
\<close>

definition handle_translation_command :: "env \<Rightarrow> session \<Rightarrow> string \<Rightarrow> (exn + response) \<times> session" where
  "handle_translation_command ev s command =
     (let parts = split_all ''to'' command
      in if length parts > 1
         then (let lang_name = strip (last parts);
                   lang_code = get_language_code (LANGUAGES ev) lang_name
               in if truthy lang_code
                  then (case lang_code of
                          Some code \<Rightarrow>
                            (case map_of (LANGUAGES ev) code of
                               Some name \<Rightarrow>
                                 (Inr [''status'' \<mapsto> Str ''success'',
                                       ''message'' \<mapsto> Str (''Translation language set to '' @ name @ ''.'')],
                                  s\<lparr>translation_language := code\<rparr>)
                             | None \<Rightarrow> (Inl (Exception code), s\<lparr>translation_language := code\<rparr>))
                        | None \<Rightarrow> (Inl (Exception []), s))
                  else (Inr [''status'' \<mapsto> Str ''error'',
                             ''message'' \<mapsto> Str (''Sorry, I don't recognize the language ''
                                @ quoted lang_name @ ''.'')], s))
         else (Inr [''status'' \<mapsto> Str ''info'',
                    ''message'' \<mapsto> Str (''The current translation language is ''
                       @ LANGUAGES_get ev (translation_language s) (translation_language s) @ ''.'')], s))"

subsection \<open>Reading controls\<close>

definition handle_control_command :: "env \<Rightarrow> session \<Rightarrow> string \<Rightarrow> response \<times> session" where
  "handle_control_command ev s command =
     (if startswith command ''set reading speed to'' then
        (let rate_str = strip (last (split_all ''to'' command))
         in case parse_float ev rate_str of
              Some rate \<Rightarrow>
                ([''status'' \<mapsto> Str ''action'', ''action'' \<mapsto> Str ''set_rate'',
                  ''rate'' \<mapsto> Float rate,
                  ''message'' \<mapsto> Str (''Reading speed set to '' @ rate @ ''x.'')], s)
            | None \<Rightarrow>
                ([''status'' \<mapsto> Str ''error'',
                  ''message'' \<mapsto> Str ''Invalid reading speed provided. Please use a number (e.g., set reading speed to 1.5).''], s))
      else if command = ''restart'' then
        (if current_file_content s = [] then
           ([''status'' \<mapsto> Str ''info'',
             ''message'' \<mapsto> Str ''I don't have a file loaded to restart reading.''], s)
         else
           ([''status'' \<mapsto> Str ''action'', ''action'' \<mapsto> Str ''start_read'',
             ''message'' \<mapsto> Str (''Restarted reading session from the beginning in ''
                @ LANGUAGES_get ev (translation_language s) (translation_language s) @ ''.'')],
            s\<lparr>read_position := 0\<rparr>))
      else if command = ''resume'' then
        (if current_file_content s = [] then
           ([''status'' \<mapsto> Str ''info'', ''message'' \<mapsto> Str ''No file content loaded to resume.''], s)
         else if read_position s \<ge> int (length (current_file_content s)) then
           ([''status'' \<mapsto> Str ''info'',
             ''message'' \<mapsto> Str ''The file has already finished reading. Use 'restart' to begin again.''], s)
         else
           ([''status'' \<mapsto> Str ''action'', ''action'' \<mapsto> Str ''start_read'',
             ''message'' \<mapsto> Str (''Resuming reading from the previous position in ''
                @ LANGUAGES_get ev (translation_language s) (translation_language s) @ ''.'')], s))
      else if command \<in> set [''stop'', ''pause''] then
        ([''status'' \<mapsto> Str ''info'', ''message'' \<mapsto> Str ''Reading paused. Say 'resume' to continue.''], s)
      else
        ([''status'' \<mapsto> Str ''info'',
          ''message'' \<mapsto> Str ''Command recognized, but no immediate server action needed.''], s))"

subsection \<open>Web actions\<close>

definition handle_web_action_command :: "string \<Rightarrow> response option" where
  "handle_web_action_command question =
     (if contains ''order'' question then
        (let item = strip (replace ''online'' [] (replace ''order'' [] question))
         in if contains ''pizza'' item then
              Some [''status'' \<mapsto> Str ''action'', ''action'' \<mapsto> Str ''open_url'',
                    ''url'' \<mapsto> Str ''https://www.dominos.com/'',
                    ''message'' \<mapsto> Str ''Redirecting you to Domino's to order pizza.'']
            else if contains ''book'' item then
              Some [''status'' \<mapsto> Str ''action'', ''action'' \<mapsto> Str ''open_url'',
                    ''url'' \<mapsto> Str ''https://www.amazon.com/'',
                    ''message'' \<mapsto> Str ''Redirecting you to Amazon to order a book.'']
            else if item \<noteq> [] then
              Some [''status'' \<mapsto> Str ''action'', ''action'' \<mapsto> Str ''open_url'',
                    ''url'' \<mapsto> Str (''https://www.google.com/search?q=best+quality+'' @ item @ ''+to+order''),
                    ''message'' \<mapsto> Str (''I've searched for the best quality '' @ item @ ''.'')]
            else
              Some [''status'' \<mapsto> Str ''info'',
                    ''message'' \<mapsto> Str ''Please specify what you want to order.''])
      else if contains ''search'' question then
        (let query = strip (replace ''web'' [] (replace ''search'' [] question))
         in if query \<noteq> [] then
              Some [''status'' \<mapsto> Str ''action'', ''action'' \<mapsto> Str ''open_url'',
                    ''url'' \<mapsto> Str (''https://www.google.com/search?q='' @ query),
                    ''message'' \<mapsto> Str (''I've searched the web for: '' @ query @ ''.'')]
            else
              Some [''status'' \<mapsto> Str ''info'',
                    ''message'' \<mapsto> Str ''Please specify what you want to search for.''])
      else None)"

subsection \<open>YouTube search and playback\<close>

text \<open>
  \<^verbatim>\<open>next((id for id in match_tuple if id), None)\<close> over the match tuples: the first
  non-empty group of the first tuple that has one.
\<close>

fun first_video_id :: "(string \<times> string) list \<Rightarrow> string option" where
  "first_video_id [] = None"
| "first_video_id ((a, b) # matches) =
     (if a \<noteq> [] then Some a else if b \<noteq> [] then Some b else first_video_id matches)"

definition search_youtube_simple :: "env \<Rightarrow> string \<Rightarrow> string option" where
  "search_youtube_simple ev query =
     (if \<not> REQUESTS_AVAILABLE ev then None
      else (let encoded_query = url_quote ev query;
                search_url = ''https://www.youtube.com/results?search_query='' @ encoded_query
            in case requests_get ev search_url of
                 Inl e \<Rightarrow> None
               | Inr (status_code, text) \<Rightarrow>
                   (if status_code = 200 then first_video_id (re_findall_video_ids ev text)
                    else None)))"

definition handle_youtube_command :: "env \<Rightarrow> string \<Rightarrow> response option" where
  "handle_youtube_command ev command =
     (case extract_youtube_query ev command of
        None \<Rightarrow> None
      | Some query \<Rightarrow>
          (if query = [] then None
           else if \<not> REQUESTS_AVAILABLE ev then
             Some [''status'' \<mapsto> Str ''error'',
                   ''message'' \<mapsto> Str ''YouTube search and playback feature requires the **requests** library. Please install it with: `pip install requests`'']
           else
             (case search_youtube_simple ev query of
                Some video_id \<Rightarrow>
                  Some [''status'' \<mapsto> Str ''action'',
                        ''action'' \<mapsto> Str ''play_youtube_embedded'',
                        ''video_id'' \<mapsto> Str video_id,
                        ''query'' \<mapsto> Str query,
                        ''video_title'' \<mapsto> Str query,
                        ''message'' \<mapsto> Str (''Playing '' @ quoted query @ '' on YouTube.'')]
              | None \<Rightarrow>
                  (let encoded_query = url_quote ev query;
                       youtube_search_url =
                         ''https://www.youtube.com/results?search_query='' @ encoded_query
                   in Some [''status'' \<mapsto> Str ''action'',
                            ''action'' \<mapsto> Str ''play_youtube'',
                            ''url'' \<mapsto> Str youtube_search_url,
                            ''query'' \<mapsto> Str query,
                            ''encoded_query'' \<mapsto> Str encoded_query,
                            ''message'' \<mapsto> Str (''Opening YouTube search for '' @ quoted query @ ''.'')]))))"

subsection \<open>Text extraction\<close>

definition newline :: string where
  "newline = [CHR 0x0A]"

definition extract_file_content :: "env \<Rightarrow> string \<Rightarrow> exn + string" where
  "extract_file_content ev full_path =
     (let file_name = os_path_basename ev full_path;
          file_extension = lower (snd (os_path_splitext ev file_name))
      in if file_extension = ''.txt'' then read_text_file ev full_path
         else if file_extension = ''.docx'' then
           (case docx_paragraphs ev full_path of
              Inl e \<Rightarrow> Inl e
            | Inr paras \<Rightarrow> Inr (join newline paras))
         else if file_extension = ''.pdf'' then
           (case pdf_pages ev full_path of
              Inl e \<Rightarrow> Inl e
            | Inr pages \<Rightarrow> Inr (join newline pages))
         else if file_extension = ''.pptx'' then
           (case pptx_slides ev full_path of
              Inl e \<Rightarrow> Inl e
            | Inr slides \<Rightarrow>
                Inr (join newline
                       (map (\<lambda>shapes. join newline
                               (map strip (filter (\<lambda>text. strip text \<noteq> []) shapes)))
                            slides)))
         else Inr [])"

definition suggest_filename :: "env \<Rightarrow> string \<Rightarrow> string list \<Rightarrow> string list" where
  "suggest_filename ev wrong_name file_list = get_close_matches ev wrong_name file_list"

subsection \<open>Transcription of a local video\<close>

text \<open>\<^verbatim>\<open>x if x else d\<close> for a value that is \<^verbatim>\<open>None\<close> or a string.\<close>

definition or_else :: "string option \<Rightarrow> string \<Rightarrow> string" where
  "or_else x d = (case x of None \<Rightarrow> d | Some v \<Rightarrow> if v \<noteq> [] then v else d)"

text \<open>
  Language detection and translation, the common end of both \<^verbatim>\<open>try\<close> blocks. It
  raises, or binds \<open>final_content\<close>, \<open>translation_message\<close> and \<open>target_lang_name\<close>.
\<close>

definition detect_and_translate :: "env \<Rightarrow> string \<Rightarrow> string \<Rightarrow> exn + (string \<times> string \<times> string)" where
  "detect_and_translate ev transcribed_text requested_target_lang =
     (case translator_detect ev transcribed_text of
        Inl e \<Rightarrow> Inl e
      | Inr actual_source_lang_code \<Rightarrow>
          (let actual_source_lang_name =
                 LANGUAGES_get ev actual_source_lang_code ''Unknown Language'';
               target_lang_name = LANGUAGES_get ev requested_target_lang requested_target_lang
           in if actual_source_lang_code \<noteq> requested_target_lang
              then (case translator_translate ev transcribed_text requested_target_lang of
                      Inl e \<Rightarrow> Inl e
                    | Inr text \<Rightarrow>
                        Inr (text,
                          '' (Translated from **'' @ actual_source_lang_name @ ''** to **''
                            @ target_lang_name @ ''**.)'',
                          target_lang_name))
              else Inr (transcribed_text,
                     '' (Language detected as **'' @ actual_source_lang_name
                       @ ''**. No translation needed.)'',
                     target_lang_name)))"

definition video_try_block :: "env \<Rightarrow> string \<Rightarrow> string \<Rightarrow> string \<Rightarrow> string \<Rightarrow> exn + (string \<times> string \<times> string)" where
  "video_try_block ev full_path audio_file_path requested_target_lang requested_source_lang =
     (case write_audiofile ev full_path audio_file_path of
        Inl e \<Rightarrow> Inl e
      | Inr u \<Rightarrow>
          (let stt_lang_code = requested_source_lang
           in case speech_to_text ev False audio_file_path stt_lang_code of
                Inl e \<Rightarrow> Inl e
              | Inr transcribed_text \<Rightarrow>
                  (if transcribed_text = [] then
                     Inl (UnknownValueError (''No speech detected after trying ''
                       @ LANGUAGES_get ev stt_lang_code stt_lang_code @ '' transcription.''))
                   else detect_and_translate ev transcribed_text requested_target_lang)))"

definition transcribe_video_audio :: "env \<Rightarrow> session \<Rightarrow> string \<Rightarrow> string \<Rightarrow> string \<Rightarrow> (exn + response) \<times> session" where
  "transcribe_video_audio ev s file_name requested_target_lang requested_source_lang =
     (if \<not> MOVIEPY_AVAILABLE ev then
        (Inr [''status'' \<mapsto> Str ''error'',
              ''message'' \<mapsto> Str ''Video transcription failed: **moviepy** library is not installed on the server.''], s)
      else
        (let full_path = os_path_join ev (FILE_STORAGE_PATH ev) file_name
         in case new_tempfile ev of
              Inl e \<Rightarrow> (Inl e, s)
            | Inr audio_file_path \<Rightarrow>
                (case video_try_block ev full_path audio_file_path
                        requested_target_lang requested_source_lang of
                   Inl (UnknownValueError m) \<Rightarrow>
                     (Inr [''status'' \<mapsto> Str ''error'',
                           ''message'' \<mapsto> Str (''Transcription failed: Could not understand the audio in the video file. Error: '' @ m)], s)
                 | Inl (RequestError m) \<Rightarrow>
                     (Inr [''status'' \<mapsto> Str ''error'',
                           ''message'' \<mapsto> Str (''Transcription failed: Could not reach Google Speech Recognition service ('' @ m @ '').'')], s)
                 | Inl e \<Rightarrow>
                     (Inr [''status'' \<mapsto> Str ''error'',
                           ''message'' \<mapsto> Str (''Error during video processing or transcription: '' @ str_exn e)], s)
                 | Inr (final_content, translation_message, target_lang_name) \<Rightarrow>
                     (if final_content = [] then
                        (Inr [''status'' \<mapsto> Str ''error'',
                              ''message'' \<mapsto> Str ''Successfully processed the file, but no readable script was generated.''], s)
                      else
                        (Inr [''status'' \<mapsto> Str ''success'',
                              ''action'' \<mapsto> Str ''start_read'',
                              ''message'' \<mapsto> Str (''Transcription complete. Starting to read the script for ''
                                 @ quoted file_name @ '' in **'' @ target_lang_name @ ''**.''
                                 @ translation_message)],
                         s\<lparr>current_file_content := final_content,
                           read_position := 0,
                           translation_language := requested_target_lang\<rparr>)))))"

subsection \<open>Transcription of a YouTube video\<close>

text \<open>
  The \<^verbatim>\<open>try\<close> block of this function ends in one of three ways: the \<^verbatim>\<open>return\<close>
  inside it, an exception, or its last statement, with the variables it has bound.
\<close>

datatype 'a block = Returned response | Raised exn | Completed 'a

definition youtube_try_block :: "env \<Rightarrow> string \<Rightarrow> string \<Rightarrow> string \<Rightarrow> ((string \<times> string \<times> string) \<times> yt_video) block" where
  "youtube_try_block ev video_id requested_target_lang requested_source_lang =
     (let video_url = ''https://www.youtube.com/watch?v='' @ video_id;
          temp_dir = tempfile_gettempdir ev
      in case pytube_YouTube ev video_url of
           Inl e \<Rightarrow> Raised e
         | Inr yt \<Rightarrow>
             (case yt_audio_subtype yt of
                None \<Rightarrow>
                  Returned [''status'' \<mapsto> Str ''error'',
                            ''message'' \<mapsto> Str ''Could not find an audio-only stream for the selected YouTube video.'']
              | Some subtype \<Rightarrow>
                  (let audio_filename = ''yt_audio_'' @ video_id @ subtype
                   in case stream_download ev video_url temp_dir audio_filename of
                        Inl e \<Rightarrow> Raised e
                      | Inr downloaded_file \<Rightarrow>
                          (case downloaded_file of
                             None \<Rightarrow> Raised (Exception ''Pytube download failed to produce a file.'')
                           | Some path \<Rightarrow>
                               (if path = [] \<or> \<not> os_path_exists ev path then
                                  Raised (Exception ''Pytube download failed to produce a file.'')
                                else
                                  (let stt_lang_code = requested_source_lang
                                   in case speech_to_text ev True path stt_lang_code of
                                        Inl e \<Rightarrow> Raised e
                                      | Inr transcribed_text \<Rightarrow>
                                          (if transcribed_text = [] then
                                             Raised (UnknownValueError ''No speech detected in the downloaded YouTube audio.'')
                                           else
                                             (case detect_and_translate ev transcribed_text requested_target_lang of
                                                Inl e \<Rightarrow> Raised e
                                              | Inr vars \<Rightarrow> Completed (vars, yt)))))))))"

text \<open>
  After the \<^verbatim>\<open>try\<close> block the function assigns the three globals and then builds its
  response, whose message reads \<^verbatim>\<open>yt.title\<close>. That read is outside the \<^verbatim>\<open>try\<close>: an
  exception it raises leaves the function, with the session already assigned.
\<close>

definition transcribe_youtube_audio_real :: "env \<Rightarrow> session \<Rightarrow> string \<Rightarrow> string \<Rightarrow> string \<Rightarrow> (exn + response) \<times> session" where
  "transcribe_youtube_audio_real ev s query requested_target_lang requested_source_lang =
     (if \<not> PYTUBE_AVAILABLE ev then
        (Inr [''status'' \<mapsto> Str ''error'',
              ''message'' \<mapsto> Str ''YouTube transcription failed: The **pytube** library is not imported. Please run `pip install pytube`.''], s)
      else if \<not> REQUESTS_AVAILABLE ev then
        (Inr [''status'' \<mapsto> Str ''error'',
              ''message'' \<mapsto> Str ''YouTube transcription requires the **requests** library for searching. Please install it with `pip install requests`.''], s)
      else
        (let video_id = search_youtube_simple ev query
         in if \<not> truthy video_id then
              (Inr [''status'' \<mapsto> Str ''error'',
                    ''message'' \<mapsto> Str (''Could not find a YouTube video for the query: ''
                       @ quoted query @ ''.'')], s)
            else
              (case youtube_try_block ev (or_else video_id [])
                      requested_target_lang requested_source_lang of
                 Returned r \<Rightarrow> (Inr r, s)
               | Raised (UnknownValueError m) \<Rightarrow>
                   (Inr [''status'' \<mapsto> Str ''error'',
                         ''message'' \<mapsto> Str (''Transcription failed: Could not understand the audio. ('' @ m @ '')'')], s)
               | Raised e \<Rightarrow>
                   (Inr [''status'' \<mapsto> Str ''error'',
                         ''message'' \<mapsto> Str (''YouTube download/transcription error: '' @ str_exn e)], s)
               | Completed ((final_content, translation_message, target_lang_name), yt) \<Rightarrow>
                   (let s' = s\<lparr>current_file_content := final_content,
                                read_position := 0,
                                translation_language := requested_target_lang\<rparr>
                    in case yt_title yt of
                         Inl e \<Rightarrow> (Inl e, s')
                       | Inr title \<Rightarrow>
                           (Inr [''status'' \<mapsto> Str ''success'',
                                 ''action'' \<mapsto> Str ''start_read'',
                                 ''message'' \<mapsto> Str (''Transcription for YouTube video '' @ quoted title
                                    @ '' complete. Starting to read the script in **''
                                    @ target_lang_name @ ''**.'' @ translation_message)],
                            s')))))"

subsection \<open>Opening a file\<close>

definition TEXT_EXTRACTION_FILES :: "string list" where
  "TEXT_EXTRACTION_FILES = [''.txt'', ''.pdf'', ''.docx'', ''.pptx'']"

definition MEDIA_FILES :: "string list" where
  "MEDIA_FILES = [''.mp4'', ''.mov'', ''.avi'', ''.mkv'', ''.wmv'']"

text \<open>The response to a request for a file that does not exist, with the near matches.\<close>

definition missing_file_response :: "env \<Rightarrow> string \<Rightarrow> string list \<Rightarrow> response" where
  "missing_file_response ev file_name names =
     (let all_files =
            filter (\<lambda>f. os_path_isfile ev (os_path_join ev (FILE_STORAGE_PATH ev) f)
                        \<and> list_ex (\<lambda>ext. endswith (lower f) ext) SUPPORTED_EXTENSIONS) names;
          suggestions = suggest_filename ev file_name all_files;
          error_message = ''The file '' @ quoted file_name
            @ '' does not exist in the server's Downloads folder.'';
          error_message =
            (if suggestions \<noteq> []
             then error_message @ '' Did you mean: **'' @ join '', '' (map quoted suggestions) @ ''**?''
             else error_message)
      in [''status'' \<mapsto> Str ''error'', ''message'' \<mapsto> Str error_message])"

text \<open>Handing a media file to the system's default application.\<close>

definition open_media_file :: "env \<Rightarrow> string \<Rightarrow> string \<Rightarrow> response" where
  "open_media_file ev file_name full_path =
     (let opened =
            [''status'' \<mapsto> Str ''info'',
             ''message'' \<mapsto> Str (''Opening media file '' @ quoted file_name
                @ '' using your default system application.'')];
          failed = (\<lambda>e. [''status'' \<mapsto> Str ''error'',
             ''message'' \<mapsto> Str (''Could not open media file locally. Error: '' @ str_exn e)])
      in if os_name ev = ''nt'' then
           (case os_startfile ev full_path of Inl e \<Rightarrow> failed e | Inr u \<Rightarrow> opened)
         else if os_name ev = ''posix'' then
           (case xdg_open ev full_path of Inl e \<Rightarrow> failed e | Inr u \<Rightarrow> opened)
         else
           [''status'' \<mapsto> Str ''info'',
            ''message'' \<mapsto> Str (''Cannot automatically open media file '' @ quoted file_name
               @ '' on this OS.'')])"

definition handle_open_file :: "env \<Rightarrow> session \<Rightarrow> string \<Rightarrow> string \<Rightarrow> (exn + response) \<times> session" where
  "handle_open_file ev s file_name_raw command_text =
     (let file_name = strip file_name_raw;
          full_path = os_path_join ev (FILE_STORAGE_PATH ev) file_name
      in if \<not> os_path_exists ev full_path then
           (case os_listdir ev (FILE_STORAGE_PATH ev) of
              Inl e \<Rightarrow> (Inl e, s)
            | Inr names \<Rightarrow> (Inr (missing_file_response ev file_name names), s))
         else
           (let file_extension = lower (snd (os_path_splitext ev file_name))
            in if file_extension \<in> set MEDIA_FILES \<and> contains ''transcribe'' command_text then
                 (let (target_lang, source_lang) = extract_language_codes ev s command_text;
                      target_lang = or_else target_lang (translation_language s);
                      source_lang = or_else source_lang ''en''
                  in transcribe_video_audio ev s file_name target_lang source_lang)
               else if file_extension \<in> set MEDIA_FILES then
                 (Inr (open_media_file ev file_name full_path), s)
               else if file_extension \<in> set TEXT_EXTRACTION_FILES then
                 (case extract_file_content ev full_path of
                    Inl e \<Rightarrow>
                      (Inr [''status'' \<mapsto> Str ''error'',
                            ''message'' \<mapsto> Str (''Error opening/reading file: '' @ str_exn e)], s)
                  | Inr content \<Rightarrow>
                      (if content \<noteq> [] then
                         (Inr [''status'' \<mapsto> Str ''success'',
                               ''action'' \<mapsto> Str ''start_read'',
                               ''message'' \<mapsto> Str (''File '' @ quoted file_name
                                  @ '' loaded successfully ('' @ str_of_nat (length content)
                                  @ '' characters). Starting to read in ''
                                  @ LANGUAGES_get ev (translation_language s) ''English'' @ ''.'')],
                          s\<lparr>current_file_content := content, read_position := 0\<rparr>)
                       else
                         (Inr [''status'' \<mapsto> Str ''error'',
                               ''message'' \<mapsto> Str (''The file '' @ file_name
                                  @ '' was opened, but no readable content was extracted.'')], s)))
               else
                 (Inr [''status'' \<mapsto> Str ''error'',
                       ''message'' \<mapsto> Str (''File type '' @ file_extension
                          @ '' is not supported for reading or local opening.'')], s)))"

section \<open>The command dispatcher\<close>

text \<open>
  \<^verbatim>\<open>command_handler\<close> receives the \<^verbatim>\<open>question\<close> field of the request. Its body is one
  \<^verbatim>\<open>try\<close> block whose branches return; an exception that escapes a callee reaches the
  handler at the end, which answers with a server error. The HTTP status code that
  accompanies that answer is not part of the response dictionary and is left out.
\<close>

definition general_conversation :: "env \<Rightarrow> string \<Rightarrow> string" where
  "general_conversation ev question =
     (if contains ''your name'' question then
        ''I am Assistant AI, a helpful web assistant.''
      else if contains ''my name'' question then
        ''I don't store your personal name, but I'm happy to help you.''
      else if contains ''time'' question then
        ''The current server time is '' @ now_time ev @ ''.''
      else if contains ''date'' question then
        ''Today's date is '' @ now_date ev @ ''.''
      else if contains ''joke'' question then
        ''Why don'' @ [CHR 0xC3, CHR 0xA2, CHR 0xE2, CHR 0x82, CHR 0xAC, CHR 0xE2, CHR 0x84, CHR 0xA2]
          @ ''t scientists trust atoms? Because they make up everything!''
      else if contains ''weather'' question then
        ''I can't check the weather, but I can search the web for it if you ask me to 'search weather in [city]'.''
      else
        ''I am not sure about that. Please try a file command, a control command, a web search, a YouTube command, or say **'reset'** to clear the current file.'')"

text \<open>
  The numbered branches of the handler that call into the session, each with the
  \<open>has_content\<close> computed at the top of the handler. Branch 4 also calls
  \<^verbatim>\<open>extract_language_codes\<close> and drops the result; the call has no effect and is left out.
\<close>

definition youtube_transcription_branch :: "env \<Rightarrow> session \<Rightarrow> string \<Rightarrow> bool \<Rightarrow> (exn + response) \<times> session" where
  "youtube_transcription_branch ev s question has_content =
     (let query = extract_youtube_query ev question;
          (target_lang, source_lang) = extract_language_codes ev s question;
          target_lang = or_else target_lang (translation_language s);
          source_lang = or_else source_lang ''en''
      in if \<not> truthy query then
           (Inr [''status'' \<mapsto> Str ''error'',
                 ''message'' \<mapsto> Str ''Please specify the video you want to transcribe (e.g., 'transcribe my song on youtube').'',
                 ''has_content'' \<mapsto> Bool has_content], s)
         else
           (case transcribe_youtube_audio_real ev s (or_else query []) target_lang source_lang of
              (Inl e, s') \<Rightarrow> (Inl e, s')
            | (Inr response, s') \<Rightarrow>
                (Inr (response(''has_content'' \<mapsto>
                        Bool (response ''action'' = Some (Str ''start_read'')))), s')))"

definition file_branch :: "env \<Rightarrow> session \<Rightarrow> string \<Rightarrow> string \<Rightarrow> bool \<Rightarrow> (exn + response) \<times> session" where
  "file_branch ev s question file_name has_content =
     (case handle_open_file ev s file_name question of
        (Inl e, s') \<Rightarrow> (Inl e, s')
      | (Inr response, s') \<Rightarrow>
          (let has_content =
                 (if response ''status'' = Some (Str ''success'') then True else has_content)
           in (Inr (response(''has_content'' \<mapsto> Bool has_content)), s')))"

definition translation_branch :: "env \<Rightarrow> session \<Rightarrow> string \<Rightarrow> bool \<Rightarrow> (exn + response) \<times> session" where
  "translation_branch ev s question has_content =
     (case handle_translation_command ev s question of
        (Inl e, s') \<Rightarrow> (Inl e, s')
      | (Inr response, s') \<Rightarrow>
          (let response =
                 (if has_content \<and> response ''status'' = Some (Str ''success'')
                  then response(''action'' \<mapsto> Str ''start_read'')
                  else response)
           in (Inr (response(''has_content'' \<mapsto> Bool has_content)), s')))"

definition control_branch :: "env \<Rightarrow> session \<Rightarrow> string \<Rightarrow> bool \<Rightarrow> (exn + response) \<times> session" where
  "control_branch ev s question0 has_content =
     (let question = (if question0 = ''continue'' then ''resume'' else question0);
          (response, s') = handle_control_command ev s question
      in (Inr (response(''has_content'' \<mapsto> Bool has_content)), s'))"

definition command_body :: "env \<Rightarrow> session \<Rightarrow> string \<Rightarrow> (exn + response) \<times> session" where
  "command_body ev s question0 =
     (let question = lower (strip question0);
          has_content = (current_file_content s \<noteq> [])
      in if question \<in> set [''reset'', ''forget'', ''clear memory'', ''forget all''] then
           (let (response, s') = handle_reset_command s in (Inr response, s'))
         else
           (case (if (contains ''play'' question \<or> contains ''watch'' question)
                     \<and> contains ''youtube'' question
                     \<and> \<not> contains ''transcribe'' question
                     \<and> \<not> contains ''translate'' question
                  then handle_youtube_command ev question
                  else None) of
              Some youtube_response \<Rightarrow>
                (Inr (youtube_response(''has_content'' \<mapsto> Bool has_content)), s)
            | None \<Rightarrow>
                (if (contains ''transcribe'' question \<or> contains ''translate'' question)
                    \<and> contains ''youtube'' question then
                   youtube_transcription_branch ev s question has_content
                 else
                   (case handle_web_action_command question of
                      Some web_response \<Rightarrow>
                        (Inr (web_response(''has_content'' \<mapsto> Bool has_content)), s)
                    | None \<Rightarrow>
                        (let file_name = extract_filename_from_command question
                         in if truthy file_name
                               \<and> list_ex (\<lambda>cmd. contains cmd question)
                                     [''open'', ''read'', ''transcribe'', ''play''] then
                              file_branch ev s question (or_else file_name []) has_content
                            else if contains ''translate to'' question then
                              translation_branch ev s question has_content
                            else if question \<in> set [''restart'', ''resume'', ''stop'', ''pause'', ''continue'']
                                    \<or> startswith question ''set reading speed to'' then
                              control_branch ev s question has_content
                            else
                              (Inr [''status'' \<mapsto> Str ''info'',
                                    ''message'' \<mapsto> Str (general_conversation ev question),
                                    ''has_content'' \<mapsto> Bool has_content], s))))))"

definition command_handler :: "env \<Rightarrow> session \<Rightarrow> string \<Rightarrow> response \<times> session" where
  "command_handler ev s question0 =
     (case command_body ev s question0 of
        (Inr response, s') \<Rightarrow> (response, s')
      | (Inl e, s') \<Rightarrow>
          ([''status'' \<mapsto> Str ''error'',
            ''message'' \<mapsto> Str (''A server error occurred: '' @ str_exn e),
            ''has_content'' \<mapsto> Bool False], s'))"

section \<open>The session invariant\<close>

text \<open>
  The cursor lies between 0 and the length of the content, and is 0 when there is no
  content.
\<close>

definition session_inv :: "session \<Rightarrow> bool" where
  "session_inv s =
     (0 \<le> read_position s \<and> read_position s \<le> int (length (current_file_content s)) \<and>
      (current_file_content s = [] \<longrightarrow> read_position s = 0))"

section \<open>Repeated reading\<close>

text \<open>The session after \<open>k\<close> successive calls of \<^verbatim>\<open>get_next_chunk(chunk_size)\<close>.\<close>

definition after_chunks :: "env \<Rightarrow> int \<Rightarrow> nat \<Rightarrow> session \<Rightarrow> session" where
  "after_chunks ev chunk_size k s = ((\<lambda>x. snd (get_next_chunk ev x chunk_size)) ^^ k) s"

section \<open>A sample installation\<close>

text \<open>
  The concrete instances below run on one environment: a POSIX machine with a downloads
  folder holding \<^verbatim>\<open>notes.txt\<close> and \<^verbatim>\<open>lecture.mp4\<close>, moviepy and requests installed,
  pytube missing, a translator that reaches French only, and a four-language table.
  The path functions are those of \<^verbatim>\<open>posixpath\<close>.
\<close>

definition posix_join :: "string \<Rightarrow> string \<Rightarrow> string" where
  "posix_join a b =
     (if startswith b ''/'' then b
      else if a = [] \<or> endswith a ''/'' then a @ b
      else a @ ''/'' @ b)"

definition posix_basename :: "string \<Rightarrow> string" where
  "posix_basename p = rev (takeWhile (\<lambda>c. c \<noteq> CHR ''/'') (rev p))"

definition posix_splitext :: "string \<Rightarrow> string \<times> string" where
  "posix_splitext p =
     (let stem = dropWhile (\<lambda>c. c = CHR ''.'') (posix_basename p);
          ext_len = Suc (length (takeWhile (\<lambda>c. c \<noteq> CHR ''.'') (rev stem)))
      in if CHR ''.'' \<in> set stem
         then (take (length p - ext_len) p, drop (length p - ext_len) p)
         else (p, []))"

definition sample_env :: env where
  "sample_env =
     \<lparr>LANGUAGES = [(''en'', ''english''), (''fr'', ''french''), (''hi'', ''hindi''),
                   (''es'', ''spanish'')],
      MOVIEPY_AVAILABLE = True,
      PYTUBE_AVAILABLE = False,
      REQUESTS_AVAILABLE = True,
      FILE_STORAGE_PATH = ''/home/user/Downloads'',
      os_name = ''posix'',
      os_path_join = posix_join,
      os_path_basename = posix_basename,
      os_path_splitext = posix_splitext,
      os_path_exists = (\<lambda>p. p \<in> set [''/home/user/Downloads/notes.txt'',
                                        ''/home/user/Downloads/lecture.mp4'']),
      os_path_isfile = (\<lambda>p. p \<in> set [''/home/user/Downloads/notes.txt'',
                                        ''/home/user/Downloads/lecture.mp4'']),
      os_listdir = (\<lambda>d. if d = ''/home/user/Downloads'' then Inr [''notes.txt'', ''lecture.mp4'']
                         else Inl (Exception ''No such file or directory'')),
      get_close_matches = (\<lambda>word names. take 3 (filter (\<lambda>f. lower f = lower word) names)),
      read_text_file = (\<lambda>p. if p = ''/home/user/Downloads/notes.txt'' then Inr ''hello world''
                             else Inl (Exception ''No such file or directory'')),
      docx_paragraphs = (\<lambda>p. Inl (Exception ''Package not found'')),
      pdf_pages = (\<lambda>p. Inl (Exception ''no such file'')),
      pptx_slides = (\<lambda>p. Inl (Exception ''Package not found'')),
      os_startfile = (\<lambda>p. Inl (Exception ''module os has no attribute startfile'')),
      xdg_open = (\<lambda>p. Inr ()),
      new_tempfile = Inr ''/tmp/tmpaudio.wav'',
      tempfile_gettempdir = ''/tmp'',
      write_audiofile = (\<lambda>video audio. Inr ()),
      speech_to_text = (\<lambda>adjust path lang. Inl (UnknownValueError [])),
      translator_detect = (\<lambda>text. Inr ''en''),
      translator_translate = (\<lambda>text dest. if dest = ''fr'' then Inr (''[fr] '' @ text)
                                           else Inl (Exception ''translation service unreachable'')),
      url_quote = (\<lambda>q. replace '' '' ''%20'' q),
      requests_get = (\<lambda>url. Inl (Exception ''connection refused'')),
      re_findall_video_ids = (\<lambda>text. []),
      pytube_YouTube = (\<lambda>url. Inl (Exception ''pytube is not installed'')),
      stream_download = (\<lambda>url dir name. Inl (Exception ''pytube is not installed'')),
      parse_float = (\<lambda>text. if text = ''1.5'' then Some ''1.5'' else None),
      progress_percent = (\<lambda>pos len. (pos * 100) div int len),
      now_time = ''10:30 AM'',
      now_date = ''2025-01-01''\<rparr>"

definition sample_session :: session where
  "sample_session =
     \<lparr>current_file_content = ''hello world'',
      read_position = 0,
      translation_language = ''en''\<rparr>"


section \<open>Verified properties\<close>

text \<open>
  C6. Whatever the session was (any content, any cursor, any target language),
  \<^verbatim>\<open>handle_reset_command\<close> leaves it with empty content and cursor 0, and its response
  carries \<open>has_content = False\<close> and \<open>action = stop_read\<close>.
\<close>

theorem reset_clears_session:
  "current_file_content (snd (handle_reset_command s)) = '''' \<and>
   read_position (snd (handle_reset_command s)) = 0 \<and>
   fst (handle_reset_command s) ''has_content'' = Some (Bool False) \<and>
   fst (handle_reset_command s) ''action'' = Some (Str ''stop_read'')"
  by (simp add: handle_reset_command_def INITIAL_FILE_CONTENT_def INITIAL_READ_POSITION_def)

text \<open>
  C10. \<^verbatim>\<open>handle_reset_command\<close> resets content and cursor only: the target translation
  language after the reset is the one before it, for every prior session.
\<close>

theorem reset_keeps_translation_language:
  "translation_language (snd (handle_reset_command s)) = translation_language s"
  by (simp add: handle_reset_command_def)

subsection \<open>The dispatcher's \<open>has_content\<close> field\<close>

text \<open>
  C3. The response of \<^verbatim>\<open>command_handler\<close> should carry \<open>has_content\<close> equal to whether
  the session holds content when the response is returned. On the YouTube-transcription
  branch the field is set from the response's action instead: with \<open>hello world\<close>
  loaded, the command \<open>transcribe despacito on youtube\<close> on a server without pytube
  fails, leaves the content in place, and answers \<open>has_content = False\<close>.
\<close>

theorem youtube_failure_reports_no_content:
  "fst (command_handler sample_env sample_session ''transcribe despacito on youtube'')
      ''has_content'' = Some (Bool False) \<and>
   fst (command_handler sample_env sample_session ''transcribe despacito on youtube'')
      ''status'' = Some (Str ''error'') \<and>
   current_file_content
     (snd (command_handler sample_env sample_session ''transcribe despacito on youtube''))
     = ''hello world''"
  by code_simp

subsection \<open>Parsing one command\<close>

lemma example_clean_command:
  "remove_filename SUPPORTED_EXTENSIONS (lower ''translate to spanish from french my_video.mp4'')
     = ''translate to spanish from french my_video''"
  by code_simp

lemma example_target_words:
  "contains ''translate to'' ''translate to spanish from french my_video'' \<and>
   join '' '' (takeWhile (\<lambda>part. part \<noteq> ''from'')
      (split_ws (strip (split1 ''translate to'' ''translate to spanish from french my_video'' ! 1))))
     = ''spanish''"
  by code_simp

lemma example_source_words:
  "contains ''from'' ''translate to spanish from french my_video'' \<and>
   split_ws (strip (split1 ''from'' ''translate to spanish from french my_video'' ! 1))
     = [''french'', ''my_video'']"
  by code_simp

lemma example_flags:
  "contains ''translate'' (lower ''translate to spanish from french my_video.mp4'') \<and>
   \<not> contains ''transcribe'' (lower ''translate to spanish from french my_video.mp4'')"
  by code_simp

lemma example_filename:
  "extract_filename_from_command ''translate to spanish from french my_video.mp4'' = Some ''.mp4''"
  by code_simp

text \<open>
  C4 (as amended). On the command \<open>translate to spanish from french my_video.mp4\<close>,
  with a registry in which \<open>spanish\<close> resolves to \<open>es\<close> and \<open>french\<close> to \<open>fr\<close>,
  \<^verbatim>\<open>extract_language_codes\<close> yields target \<open>es\<close> and source \<open>fr\<close> in every session, and
  \<^verbatim>\<open>extract_filename_from_command\<close> yields \<open>.mp4\<close>: the trigger keyword \<open>video\<close>
  occurs inside \<open>my_video.mp4\<close>, and the text after its first occurrence is the
  candidate.
\<close>

theorem parse_translate_command:
  assumes es: "get_language_code (LANGUAGES ev) ''spanish'' = Some ''es''"
    and fr: "get_language_code (LANGUAGES ev) ''french'' = Some ''fr''"
  shows "extract_language_codes ev s ''translate to spanish from french my_video.mp4''
           = (Some ''es'', Some ''fr'') \<and>
         extract_filename_from_command ''translate to spanish from french my_video.mp4''
           = Some ''.mp4''"
proof -
  have probe: "probe_source (LANGUAGES ev) [''french'', ''my_video'']
                 [0 ..< min 3 (length [''french'', ''my_video''])] = Some ''fr''"
  proof -
    have "[0 ..< min 3 (length [''french'', ''my_video''])] = [0, 1]" by code_simp
    then show ?thesis by (simp add: fr truthy_def)
  qed
  have "extract_language_codes ev s ''translate to spanish from french my_video.mp4''
          = (Some ''es'', Some ''fr'')"
    unfolding extract_language_codes_def parse_target_def parse_source_def Let_def
      example_clean_command
    using example_target_words example_source_words example_flags probe es
    by simp
  with example_filename show ?thesis by simp
qed

theorem parse_translate_command_witness:
  "get_language_code (LANGUAGES sample_env) ''spanish'' = Some ''es'' \<and>
   get_language_code (LANGUAGES sample_env) ''french'' = Some ''fr'' \<and>
   extract_language_codes sample_env sample_session
       ''translate to spanish from french my_video.mp4'' = (Some ''es'', Some ''fr'') \<and>
   extract_filename_from_command ''translate to spanish from french my_video.mp4'' = Some ''.mp4''"
proof -
  have es: "get_language_code (LANGUAGES sample_env) ''spanish'' = Some ''es''" by code_simp
  have fr: "get_language_code (LANGUAGES sample_env) ''french'' = Some ''fr''" by code_simp
  from parse_translate_command [OF es fr, of sample_session] es fr show ?thesis by simp
qed

text \<open>The claim as stated fails: the file name extracted is not \<open>my_video.mp4\<close>.\<close>

theorem parse_translate_command_counterexample:
  "extract_filename_from_command ''translate to spanish from french my_video.mp4''
     \<noteq> Some ''my_video.mp4''"
  by code_simp

subsection \<open>A failing translation\<close>

lemma py_slice_take_drop:
  assumes "0 \<le> i" "i \<le> j"
  shows "py_slice xs i j = take (nat j - nat i) (drop (nat i) xs)"
  using assms by (auto simp: py_slice_def slice_bound_def Let_def min_def)

text \<open>
  C5. In a session with content, a cursor inside it and a target language other than
  \<open>en\<close>, when the translator raises on the chunk, \<^verbatim>\<open>get_next_chunk\<close> answers
  \<open>status = reading\<close> with the untranslated slice from the cursor to
  \<open>min (cursor + chunk_size) length\<close>, and moves the cursor to that end; content and
  target language stay. For a positive chunk size the cursor moves forward and the slice
  is the \<open>min chunk_size (length - cursor)\<close> characters at the cursor.
\<close>

theorem get_next_chunk_translation_failure:
  assumes "current_file_content s \<noteq> []"
    and "0 \<le> read_position s"
    and "read_position s < int (length (current_file_content s))"
    and "translation_language s \<noteq> ''en''"
    and "translator_translate ev
           (py_slice (current_file_content s) (read_position s)
              (min (read_position s + chunk_size) (int (length (current_file_content s)))))
           (translation_language s) = Inl e"
  shows "fst (get_next_chunk ev s chunk_size) ''status'' = Some (Str ''reading'') \<and>
         fst (get_next_chunk ev s chunk_size) ''chunk'' =
           Some (Str (py_slice (current_file_content s) (read_position s)
              (min (read_position s + chunk_size) (int (length (current_file_content s)))))) \<and>
         read_position (snd (get_next_chunk ev s chunk_size)) =
           min (read_position s + chunk_size) (int (length (current_file_content s))) \<and>
         current_file_content (snd (get_next_chunk ev s chunk_size)) = current_file_content s \<and>
         translation_language (snd (get_next_chunk ev s chunk_size)) = translation_language s \<and>
         (0 < chunk_size \<longrightarrow>
            read_position s < read_position (snd (get_next_chunk ev s chunk_size)) \<and>
            py_slice (current_file_content s) (read_position s)
              (min (read_position s + chunk_size) (int (length (current_file_content s))))
             = take (nat (min chunk_size (int (length (current_file_content s)) - read_position s)))
                 (drop (nat (read_position s)) (current_file_content s)))"
proof -
  let ?hi = "min (read_position s + chunk_size) (int (length (current_file_content s)))"
  have main: "get_next_chunk ev s chunk_size =
     ([''status'' \<mapsto> Str ''reading'',
       ''chunk'' \<mapsto> Str (py_slice (current_file_content s) (read_position s) ?hi),
       ''message'' \<mapsto> Str (''Reading chunk in ''
           @ LANGUAGES_get ev (translation_language s) (translation_language s) @ ''.''),
       ''progress'' \<mapsto> Num (progress_percent ev ?hi (length (current_file_content s)))],
      s\<lparr>read_position := ?hi\<rparr>)"
    using assms by (simp add: get_next_chunk_def translate_chunk_def Let_def)
  have pos: "0 < chunk_size \<longrightarrow> read_position s < ?hi \<and>
      py_slice (current_file_content s) (read_position s) ?hi
        = take (nat (min chunk_size (int (length (current_file_content s)) - read_position s)))
            (drop (nat (read_position s)) (current_file_content s))"
  proof
    assume sz: "0 < chunk_size"
    with assms(3) have lt: "read_position s < ?hi" by simp
    have "py_slice (current_file_content s) (read_position s) ?hi
            = take (nat ?hi - nat (read_position s))
                (drop (nat (read_position s)) (current_file_content s))"
      using assms(2) lt by (intro py_slice_take_drop) auto
    moreover have "nat ?hi - nat (read_position s)
        = nat (min chunk_size (int (length (current_file_content s)) - read_position s))"
      using assms(2,3) sz unfolding min_def by (simp split: if_splits) linarith+
    ultimately show "read_position s < ?hi \<and>
      py_slice (current_file_content s) (read_position s) ?hi
        = take (nat (min chunk_size (int (length (current_file_content s)) - read_position s)))
            (drop (nat (read_position s)) (current_file_content s))"
      using lt by simp
  qed
  show ?thesis unfolding main using pos by simp
qed

theorem get_next_chunk_translation_failure_witness:
  "translator_translate sample_env ''hell'' ''es'' = Inl (Exception ''translation service unreachable'') \<and>
   fst (get_next_chunk sample_env (sample_session\<lparr>translation_language := ''es''\<rparr>) 4) ''status''
     = Some (Str ''reading'') \<and>
   fst (get_next_chunk sample_env (sample_session\<lparr>translation_language := ''es''\<rparr>) 4) ''chunk''
     = Some (Str ''hell'') \<and>
   read_position (snd (get_next_chunk sample_env (sample_session\<lparr>translation_language := ''es''\<rparr>) 4))
     = 4"
proof -
  let ?s = "sample_session\<lparr>translation_language := ''es''\<rparr>"
  have sl: "py_slice (current_file_content ?s) (read_position ?s)
              (min (read_position ?s + 4) (int (length (current_file_content ?s)))) = ''hell''"
    by code_simp
  have tr: "translator_translate sample_env ''hell'' ''es''
              = Inl (Exception ''translation service unreachable'')"
    by code_simp
  have h1: "current_file_content ?s \<noteq> []" by code_simp
  have h2: "0 \<le> read_position ?s" by code_simp
  have h3: "read_position ?s < int (length (current_file_content ?s))" by code_simp
  have h4: "translation_language ?s \<noteq> ''en''" by code_simp
  have h5: "translator_translate sample_env
           (py_slice (current_file_content ?s) (read_position ?s)
              (min (read_position ?s + 4) (int (length (current_file_content ?s)))))
           (translation_language ?s) = Inl (Exception ''translation service unreachable'')"
    unfolding sl using tr by (simp add: sample_session_def)
  have m: "min (read_position ?s + 4) (int (length (current_file_content ?s))) = 4"
    by code_simp
  have sl': "py_slice (current_file_content sample_session) (read_position sample_session) 4
               = ''hell''"
    by code_simp
  from get_next_chunk_translation_failure [OF h1 h2 h3 h4 h5] tr
  show ?thesis unfolding sl m by (simp add: sl')
qed

subsection \<open>The registry round trip\<close>

text \<open>
  C8 (as amended). The registry is the collaborator's table, so the round trip is a
  property of \<^verbatim>\<open>get_language_code\<close> on any table. For a code \<open>c\<close> that the table maps
  to \<open>name\<close>, looking \<open>name\<close> up returns the code of the first entry, in table order,
  whose name equals \<open>name\<close> with case ignored; the result is \<open>c\<close> exactly when no entry
  before the one of \<open>c\<close> has such a name.
\<close>

theorem language_roundtrip_first_match:
  assumes "map_of langs c = Some name"
  shows "get_language_code langs name
           = map_option fst (find (\<lambda>(c', n'). lower n' = lower name) langs) \<and>
         (get_language_code langs name = Some c \<longleftrightarrow>
            (\<forall>(c', n') \<in> set (takeWhile (\<lambda>(c', n'). c' \<noteq> c) langs). lower n' \<noteq> lower name))"
proof
  show "get_language_code langs name
           = map_option fst (find (\<lambda>(c', n'). lower n' = lower name) langs)"
    by (induction langs) auto
  from assms show "get_language_code langs name = Some c \<longleftrightarrow>
            (\<forall>(c', n') \<in> set (takeWhile (\<lambda>(c', n'). c' \<noteq> c) langs). lower n' \<noteq> lower name)"
  proof (induction langs)
    case Nil
    then show ?case by simp
  next
    case (Cons a langs)
    obtain c' n' where a: "a = (c', n')" by (cases a)
    show ?case
    proof (cases "c' = c")
      case True
      with Cons.prems a have "n' = name" by simp
      with True a show ?thesis by simp
    next
      case False
      with Cons.prems a have "map_of langs c = Some name" by simp
      then have ih: "get_language_code langs name = Some c \<longleftrightarrow>
            (\<forall>(c', n') \<in> set (takeWhile (\<lambda>(c', n'). c' \<noteq> c) langs). lower n' \<noteq> lower name)"
        by (rule Cons.IH)
      show ?thesis
      proof (cases "lower n' = lower name")
        case True
        with False a show ?thesis by auto
      next
        case neq: False
        with False a ih show ?thesis by simp
      qed
    qed
  qed
qed

theorem language_roundtrip_first_match_witness:
  "map_of [(''iw'', ''hebrew''), (''he'', ''Hebrew'')] ''iw'' = Some ''hebrew'' \<and>
   get_language_code [(''iw'', ''hebrew''), (''he'', ''Hebrew'')] ''hebrew'' = Some ''iw'' \<and>
   map_of [(''iw'', ''hebrew''), (''he'', ''Hebrew'')] ''he'' = Some ''Hebrew'' \<and>
   get_language_code [(''iw'', ''hebrew''), (''he'', ''Hebrew'')] ''Hebrew'' \<noteq> Some ''he''"
proof -
  have m1: "map_of [(''iw'', ''hebrew''), (''he'', ''Hebrew'')] ''iw'' = Some ''hebrew''" by simp
  have m2: "map_of [(''iw'', ''hebrew''), (''he'', ''Hebrew'')] ''he'' = Some ''Hebrew''" by simp
  from language_roundtrip_first_match [OF m1] language_roundtrip_first_match [OF m2] m1 m2
  show ?thesis by (simp add: lower_def lower_char_def)
qed

text \<open>
  The claim as stated fails on a table in which two codes share a name, as \<open>iw\<close> and
  \<open>he\<close> share \<open>hebrew\<close>: the name of \<open>he\<close> resolves to \<open>iw\<close>.
\<close>

theorem language_roundtrip_counterexample:
  "map_of [(''iw'', ''hebrew''), (''he'', ''hebrew'')] ''he'' = Some ''hebrew'' \<and>
   get_language_code [(''iw'', ''hebrew''), (''he'', ''hebrew'')] ''hebrew'' = Some ''iw'' \<and>
   get_language_code [(''iw'', ''hebrew''), (''he'', ''hebrew'')] ''hebrew'' \<noteq> Some ''he''"
  by (simp add: lower_def lower_char_def)

subsection \<open>What the language extraction reads\<close>

text \<open>
  C9 (as amended). \<^verbatim>\<open>extract_language_codes\<close> returns a pair and no session, so it
  writes nothing, and the source code it returns is the same in every session. Its
  target code is the session's current target language exactly when no target was parsed
  from a \<open>translate to\<close> phrase and the command mentions \<open>transcribe\<close> or
  \<open>translate\<close>; otherwise it is the parsed target, which is read from the command and
  the registry alone.
\<close>

theorem extract_language_codes_session_use:
  "fst (extract_language_codes ev s c)
     = (if parse_target ev (remove_filename SUPPORTED_EXTENSIONS (lower c)) = None
           \<and> (contains ''transcribe'' (lower c) \<or> contains ''translate'' (lower c))
        then Some (translation_language s)
        else parse_target ev (remove_filename SUPPORTED_EXTENSIONS (lower c))) \<and>
   snd (extract_language_codes ev s c) = snd (extract_language_codes ev s' c)"
  by (simp add: extract_language_codes_def Let_def)

theorem extract_language_codes_session_use_witness:
  "fst (extract_language_codes sample_env sample_session ''transcribe lecture.mp4'')
     = Some (translation_language sample_session) \<and>
   fst (extract_language_codes sample_env sample_session ''translate to french'')
     = Some ''fr''"
proof -
  have t1: "parse_target sample_env
              (remove_filename SUPPORTED_EXTENSIONS (lower ''transcribe lecture.mp4'')) = None"
    by code_simp
  have f1: "contains ''transcribe'' (lower ''transcribe lecture.mp4'')"
    by code_simp
  have t2: "parse_target sample_env
              (remove_filename SUPPORTED_EXTENSIONS (lower ''translate to french'')) = Some ''fr''"
    by code_simp
  from extract_language_codes_session_use
         [of sample_env sample_session "''transcribe lecture.mp4''" sample_session]
       extract_language_codes_session_use
         [of sample_env sample_session "''translate to french''" sample_session]
       t1 f1 t2
  show ?thesis by simp
qed

text \<open>
  The claim as stated fails: the same command gives another target under another
  current target language.
\<close>

theorem extract_language_codes_counterexample:
  "fst (extract_language_codes sample_env sample_session ''transcribe lecture.mp4'')
     = Some ''en'' \<and>
   fst (extract_language_codes sample_env
          (sample_session\<lparr>translation_language := ''fr''\<rparr>) ''transcribe lecture.mp4'')
     = Some ''fr''"
  by code_simp

subsection \<open>Failing transcriptions\<close>

lemma youtube_try_block_Returned:
  "youtube_try_block ev v t src = Returned r \<Longrightarrow> r ''status'' = Some (Str ''error'')"
  by (auto simp: youtube_try_block_def Let_def
           split: sum.splits option.splits if_splits)

text \<open>
  The local pipeline leaves the session as it was unless it answers \<open>success\<close>; the
  YouTube pipeline leaves it as it was when it answers \<open>error\<close>, and otherwise has loaded
  it, whether it then answers \<open>success\<close> or raises.
\<close>

lemma transcribe_video_audio_cases:
  "transcribe_video_audio ev s f t src = (x, s') \<Longrightarrow>
     (s' = s \<and> (case x of Inl e \<Rightarrow> True | Inr r \<Rightarrow> r ''status'' = Some (Str ''error''))) \<or>
     (\<exists>c r. c \<noteq> [] \<and> x = Inr r \<and> r ''status'' = Some (Str ''success'') \<and>
        r ''action'' = Some (Str ''start_read'') \<and>
        s' = s\<lparr>current_file_content := c, read_position := 0, translation_language := t\<rparr>)"
  by (auto simp: transcribe_video_audio_def Let_def
           split: sum.splits exn.splits prod.splits if_splits)

lemma transcribe_youtube_audio_real_cases:
  "transcribe_youtube_audio_real ev s q t src = (x, s') \<Longrightarrow>
     (s' = s \<and> (\<exists>r. x = Inr r \<and> r ''status'' = Some (Str ''error''))) \<or>
     (\<exists>c. s' = s\<lparr>current_file_content := c, read_position := 0, translation_language := t\<rparr> \<and>
        (case x of
           Inl e \<Rightarrow> True
         | Inr r \<Rightarrow> r ''status'' = Some (Str ''success'') \<and> r ''action'' = Some (Str ''start_read'')))"
  by (auto simp: transcribe_youtube_audio_real_def Let_def dest: youtube_try_block_Returned
           split: block.splits exn.splits prod.splits sum.splits if_splits)


subsection \<open>The session invariant\<close>

lemma inv_initial: "session_inv initial_session"
  by (simp add: session_inv_def initial_session_def INITIAL_FILE_CONTENT_def
        INITIAL_READ_POSITION_def)

lemma inv_reset: "session_inv (snd (handle_reset_command s))"
  by (simp add: session_inv_def handle_reset_command_def INITIAL_FILE_CONTENT_def
        INITIAL_READ_POSITION_def)

lemma inv_load: "session_inv (s\<lparr>current_file_content := c, read_position := 0\<rparr>)"
  by (simp add: session_inv_def)

lemma inv_next_chunk:
  "session_inv s \<Longrightarrow> 0 \<le> n \<Longrightarrow> session_inv (snd (get_next_chunk ev s n))"
  by (auto simp: session_inv_def get_next_chunk_def Let_def)

lemma inv_control: "session_inv s \<Longrightarrow> session_inv (snd (handle_control_command ev s c))"
  by (auto simp: session_inv_def handle_control_command_def Let_def split: option.splits)

lemma inv_translation:
  "session_inv s \<Longrightarrow> session_inv (snd (handle_translation_command ev s c))"
  by (auto simp: session_inv_def handle_translation_command_def Let_def split: option.splits)

lemma inv_video:
  assumes "session_inv s"
  shows "session_inv (snd (transcribe_video_audio ev s f t src))"
proof -
  obtain x s' where v: "transcribe_video_audio ev s f t src = (x, s')"
    by (cases "transcribe_video_audio ev s f t src")
  from transcribe_video_audio_cases [OF v] assms show ?thesis
    unfolding v by (auto simp: session_inv_def)
qed

lemma inv_youtube:
  assumes "session_inv s"
  shows "session_inv (snd (transcribe_youtube_audio_real ev s q t src))"
proof -
  obtain x s' where v: "transcribe_youtube_audio_real ev s q t src = (x, s')"
    by (cases "transcribe_youtube_audio_real ev s q t src")
  from transcribe_youtube_audio_real_cases [OF v] assms show ?thesis
    unfolding v by (auto simp: session_inv_def)
qed

lemma inv_open_file: "session_inv s \<Longrightarrow> session_inv (snd (handle_open_file ev s f c))"
  by (auto simp: handle_open_file_def Let_def inv_video inv_load split: sum.splits prod.splits)

lemma inv_youtube_branch:
  "session_inv s \<Longrightarrow> session_inv (snd (youtube_transcription_branch ev s q h))"
  using inv_youtube [of s ev]
  by (simp add: youtube_transcription_branch_def Let_def case_prod_beta split: sum.split)

lemma inv_file_branch: "session_inv s \<Longrightarrow> session_inv (snd (file_branch ev s q f h))"
  using inv_open_file [of s ev f q]
  by (simp add: file_branch_def Let_def case_prod_beta split: sum.split)

lemma inv_translation_branch:
  "session_inv s \<Longrightarrow> session_inv (snd (translation_branch ev s q h))"
  using inv_translation [of s ev q]
  by (simp add: translation_branch_def Let_def case_prod_beta split: sum.split)

lemma inv_control_branch: "session_inv s \<Longrightarrow> session_inv (snd (control_branch ev s q h))"
  by (simp add: control_branch_def Let_def case_prod_beta inv_control)

lemma inv_command_body:
  assumes i: "session_inv s"
  shows "session_inv (snd (command_body ev s q))"
proof -
  define question where "question = lower (strip q)"
  define hc where "hc = (current_file_content s \<noteq> [])"
  define y where "y = (if (contains ''play'' question \<or> contains ''watch'' question)
                     \<and> contains ''youtube'' question
                     \<and> \<not> contains ''transcribe'' question
                     \<and> \<not> contains ''translate'' question
                  then handle_youtube_command ev question
                  else None)"
  have body: "command_body ev s q =
      (if question \<in> set [''reset'', ''forget'', ''clear memory'', ''forget all''] then
           (Inr (fst (handle_reset_command s)), snd (handle_reset_command s))
         else
           (case y of
              Some youtube_response \<Rightarrow>
                (Inr (youtube_response(''has_content'' \<mapsto> Bool hc)), s)
            | None \<Rightarrow>
                (if (contains ''transcribe'' question \<or> contains ''translate'' question)
                    \<and> contains ''youtube'' question then
                   youtube_transcription_branch ev s question hc
                 else
                   (case handle_web_action_command question of
                      Some web_response \<Rightarrow>
                        (Inr (web_response(''has_content'' \<mapsto> Bool hc)), s)
                    | None \<Rightarrow>
                        (if truthy (extract_filename_from_command question)
                               \<and> list_ex (\<lambda>cmd. contains cmd question)
                                     [''open'', ''read'', ''transcribe'', ''play''] then
                              file_branch ev s question
                                (or_else (extract_filename_from_command question) []) hc
                            else if contains ''translate to'' question then
                              translation_branch ev s question hc
                            else if question \<in> set [''restart'', ''resume'', ''stop'', ''pause'', ''continue'']
                                    \<or> startswith question ''set reading speed to'' then
                              control_branch ev s question hc
                            else
                              (Inr [''status'' \<mapsto> Str ''info'',
                                    ''message'' \<mapsto> Str (general_conversation ev question),
                                    ''has_content'' \<mapsto> Bool hc], s))))))"
    unfolding command_body_def Let_def case_prod_beta question_def hc_def y_def ..
  show ?thesis
    unfolding body
    by (cases y; cases "handle_web_action_command question")
       (simp_all only: if_split option.case snd_conv i inv_reset inv_youtube_branch [OF i]
          inv_file_branch [OF i] inv_translation_branch [OF i] inv_control_branch [OF i]
          split: if_split, auto)
qed

lemma inv_command_handler:
  "session_inv s \<Longrightarrow> session_inv (snd (command_handler ev s q))"
  using inv_command_body [of s ev q]
  by (simp add: command_handler_def case_prod_beta split: sum.split)

text \<open>
  C2. The invariant \<open>0 \<le> cursor \<le> length content\<close>, with cursor 0 when the content is
  empty, holds of the initial session and is kept by every operation on the session:
  loading a file, reading the next chunk (as the \<^verbatim>\<open>/read_chunk\<close> handler calls it, and
  for every chunk size that is not negative), the reading controls with restart, reset,
  both transcription loaders, the change of target language, and the command handler as
  a whole.
\<close>

theorem session_invariant_preserved:
  "session_inv initial_session \<and>
   (session_inv s \<longrightarrow>
      session_inv (snd (handle_open_file ev s f c)) \<and>
      (0 \<le> n \<longrightarrow> session_inv (snd (get_next_chunk ev s n))) \<and>
      session_inv (snd (read_chunk_handler ev s)) \<and>
      session_inv (snd (handle_control_command ev s c)) \<and>
      session_inv (snd (handle_reset_command s)) \<and>
      session_inv (snd (transcribe_video_audio ev s f t src)) \<and>
      session_inv (snd (transcribe_youtube_audio_real ev s q t src)) \<and>
      session_inv (snd (handle_translation_command ev s c)) \<and>
      session_inv (snd (command_handler ev s c)))"
  by (simp add: inv_initial inv_open_file inv_next_chunk read_chunk_handler_def inv_control
        inv_reset inv_video inv_youtube inv_translation inv_command_handler)

theorem session_invariant_preserved_witness:
  "session_inv sample_session \<and>
   snd (get_next_chunk sample_env sample_session 4) = sample_session\<lparr>read_position := 4\<rparr> \<and>
   session_inv (sample_session\<lparr>read_position := 4\<rparr>) \<and>
   snd (command_handler sample_env initial_session ''read notes.txt'') = sample_session"
proof -
  have i: "session_inv sample_session" by code_simp
  have n: "(0::int) \<le> 4" by simp
  have a: "snd (get_next_chunk sample_env sample_session 4) = sample_session\<lparr>read_position := 4\<rparr>"
    by code_simp
  have b: "snd (command_handler sample_env initial_session ''read notes.txt'') = sample_session"
    by code_simp
  from session_invariant_preserved [of sample_session sample_env _ _ 4] i n
  have "session_inv (snd (get_next_chunk sample_env sample_session 4))"
    by simp
  with i a b show ?thesis by simp
qed

subsection \<open>Reading a document to its end\<close>

lemma after_chunks_state:
  assumes n: "0 < n" and c: "current_file_content s \<noteq> []" and p: "read_position s = 0"
  shows "after_chunks ev n k s
           = s\<lparr>read_position := min (int k * n) (int (length (current_file_content s)))\<rparr>"
proof (induction k)
  case 0
  from p show ?case by (simp add: after_chunks_def)
next
  case (Suc k)
  let ?L = "int (length (current_file_content s))"
  let ?c = "min (int k * n) ?L"
  have step: "after_chunks ev n (Suc k) s = snd (get_next_chunk ev (after_chunks ev n k s) n)"
    by (simp add: after_chunks_def)
  show ?case
  proof (cases "?L \<le> int k * n")
    case True
    then have "?c = ?L" by simp
    moreover from True n have "min (int (Suc k) * n) ?L = ?L"
      by (simp add: algebra_simps)
    ultimately show ?thesis
      unfolding step Suc.IH using c by (simp add: get_next_chunk_def)
  next
    case False
    then have ck: "?c = int k * n" by simp
    have "int (Suc k) * n = int k * n + n" by (simp add: algebra_simps)
    then show ?thesis
      unfolding step Suc.IH using c False ck by (simp add: get_next_chunk_def Let_def)
  qed
qed

lemma concat_chunks:
  "concat (map (\<lambda>j. take n (drop (j * n) xs)) [0 ..< m]) = take (m * n) xs"
proof (induction m)
  case 0
  show ?case by simp
next
  case (Suc m)
  have "take (m * n) xs @ take n (drop (m * n) xs) = take (m * n + n) xs"
    by (simp add: take_add)
  with Suc show ?case by (simp add: add.commute)
qed

text \<open>
  C1. Take a chunk size \<open>n > 0\<close> and a session with content of length \<open>L > 0\<close> and
  cursor 0, and call \<^verbatim>\<open>get_next_chunk(n)\<close> again and again. Before call number \<open>k\<close>
  (counted from 0) the cursor is \<open>min (k * n) L\<close> and the content is unchanged. While
  \<open>k * n < L\<close> the call answers \<open>reading\<close>, its chunk is made from the characters of
  the range from \<open>k * n\<close> to \<open>min (k * n + n) L\<close>, which is not empty and is the block
  of at most \<open>n\<close> characters at \<open>k * n\<close>, and the cursor moves to the end of that range.
  The first call with the cursor at \<open>L\<close> answers \<open>done\<close> with an empty chunk. The
  blocks, one after the other, are the content: the ranges are consecutive, do not
  overlap and cover it.
\<close>

theorem get_next_chunk_partitions_content:
  assumes n: "0 < n" and c: "current_file_content s \<noteq> []" and p: "read_position s = 0"
  shows "read_position (after_chunks ev n k s)
           = min (int k * n) (int (length (current_file_content s))) \<and>
         current_file_content (after_chunks ev n k s) = current_file_content s \<and>
         (int k * n < int (length (current_file_content s)) \<longrightarrow>
            fst (get_next_chunk ev (after_chunks ev n k s) n) ''status'' = Some (Str ''reading'') \<and>
            fst (get_next_chunk ev (after_chunks ev n k s) n) ''chunk''
              = Some (Str (translate_chunk ev s
                             (take (nat n) (drop (k * nat n) (current_file_content s))))) \<and>
            py_slice (current_file_content s) (int k * n)
                (min (int k * n + n) (int (length (current_file_content s))))
              = take (nat n) (drop (k * nat n) (current_file_content s)) \<and>
            take (nat n) (drop (k * nat n) (current_file_content s)) \<noteq> [] \<and>
            read_position (snd (get_next_chunk ev (after_chunks ev n k s) n))
              = min (int k * n + n) (int (length (current_file_content s)))) \<and>
         (int (length (current_file_content s)) \<le> int k * n \<longrightarrow>
            fst (get_next_chunk ev (after_chunks ev n k s) n) ''status'' = Some (Str ''done'') \<and>
            fst (get_next_chunk ev (after_chunks ev n k s) n) ''chunk'' = Some (Str []) \<and>
            read_position (snd (get_next_chunk ev (after_chunks ev n k s) n))
              = int (length (current_file_content s))) \<and>
         (int (length (current_file_content s)) \<le> int m * n \<longrightarrow>
            concat (map (\<lambda>j. take (nat n) (drop (j * nat n) (current_file_content s))) [0 ..< m])
              = current_file_content s)"
proof -
  let ?xs = "current_file_content s"
  let ?L = "int (length ?xs)"
  note st = after_chunks_state [OF n c p, of ev k]
  have nn: "int (nat n) = n" using n by simp
  have kn: "nat (int k * n) = k * nat n" using n by (simp add: nat_mult_distrib)
  have reading: "int k * n < ?L \<longrightarrow>
            fst (get_next_chunk ev (after_chunks ev n k s) n) ''status'' = Some (Str ''reading'') \<and>
            fst (get_next_chunk ev (after_chunks ev n k s) n) ''chunk''
              = Some (Str (translate_chunk ev s (take (nat n) (drop (k * nat n) ?xs)))) \<and>
            py_slice ?xs (int k * n) (min (int k * n + n) ?L)
              = take (nat n) (drop (k * nat n) ?xs) \<and>
            take (nat n) (drop (k * nat n) ?xs) \<noteq> [] \<and>
            read_position (snd (get_next_chunk ev (after_chunks ev n k s) n))
              = min (int k * n + n) ?L"
  proof
    assume lt: "int k * n < ?L"
    have k0: "0 \<le> int k * n" using n by simp
    have le: "int k * n \<le> min (int k * n + n) ?L" using n lt by simp
    have klt: "k * nat n < length ?xs" using lt kn k0 by linarith
    have sl: "py_slice ?xs (int k * n) (min (int k * n + n) ?L)
                = take (nat n) (drop (k * nat n) ?xs)"
    proof -
      have "py_slice ?xs (int k * n) (min (int k * n + n) ?L)
              = take (nat (min (int k * n + n) ?L) - nat (int k * n)) (drop (nat (int k * n)) ?xs)"
        using k0 le by (rule py_slice_take_drop)
      also have "\<dots> = take (nat (min (int k * n + n) ?L) - k * nat n) (drop (k * nat n) ?xs)"
        by (simp only: kn)
      also have "\<dots> = take (nat n) (drop (k * nat n) ?xs)"
      proof (cases "int k * n + n \<le> ?L")
        case True
        then have "min (int k * n + n) ?L = int k * n + n" by simp
        moreover have "nat (int k * n + n) = k * nat n + nat n"
          using n k0 kn by (simp add: nat_add_distrib)
        ultimately show ?thesis by simp
      next
        case False
        then have "min (int k * n + n) ?L = ?L" by simp
        moreover have "length ?xs - k * nat n \<le> nat n"
          using False kn k0 n by linarith
        ultimately show ?thesis by simp
      qed
      finally show ?thesis .
    qed
    have ne: "take (nat n) (drop (k * nat n) ?xs) \<noteq> []"
      using klt n by simp
    have g: "get_next_chunk ev (s\<lparr>read_position := int k * n\<rparr>) n =
      ([''status'' \<mapsto> Str ''reading'',
        ''chunk'' \<mapsto> Str (translate_chunk ev s (py_slice ?xs (int k * n) (min (int k * n + n) ?L))),
        ''message'' \<mapsto> Str (''Reading chunk in ''
           @ LANGUAGES_get ev (translation_language s) (translation_language s) @ ''.''),
        ''progress'' \<mapsto> Num (progress_percent ev (min (int k * n + n) ?L) (length ?xs))],
       s\<lparr>read_position := min (int k * n + n) ?L\<rparr>)"
      using c lt by (simp add: get_next_chunk_def Let_def translate_chunk_def)
    from lt have m: "min (int k * n) ?L = int k * n" by simp
    show "fst (get_next_chunk ev (after_chunks ev n k s) n) ''status'' = Some (Str ''reading'') \<and>
            fst (get_next_chunk ev (after_chunks ev n k s) n) ''chunk''
              = Some (Str (translate_chunk ev s (take (nat n) (drop (k * nat n) ?xs)))) \<and>
            py_slice ?xs (int k * n) (min (int k * n + n) ?L)
              = take (nat n) (drop (k * nat n) ?xs) \<and>
            take (nat n) (drop (k * nat n) ?xs) \<noteq> [] \<and>
            read_position (snd (get_next_chunk ev (after_chunks ev n k s) n))
              = min (int k * n + n) ?L"
      unfolding st m g using sl ne by simp
  qed
  have finished: "?L \<le> int k * n \<longrightarrow>
            fst (get_next_chunk ev (after_chunks ev n k s) n) ''status'' = Some (Str ''done'') \<and>
            fst (get_next_chunk ev (after_chunks ev n k s) n) ''chunk'' = Some (Str []) \<and>
            read_position (snd (get_next_chunk ev (after_chunks ev n k s) n)) = ?L"
    unfolding st using c by (simp add: get_next_chunk_def)
  have part: "?L \<le> int m * n \<longrightarrow>
            concat (map (\<lambda>j. take (nat n) (drop (j * nat n) ?xs)) [0 ..< m]) = ?xs"
  proof
    assume a: "?L \<le> int m * n"
    have "int m * n = int (m * nat n)" using nn by simp
    with a have "length ?xs \<le> m * nat n" by linarith
    then show "concat (map (\<lambda>j. take (nat n) (drop (j * nat n) ?xs)) [0 ..< m]) = ?xs"
      by (simp add: concat_chunks)
  qed
  from reading finished part show ?thesis unfolding st by simp
qed

theorem get_next_chunk_partitions_content_witness:
  "read_position (after_chunks sample_env 4 2 sample_session) = 8 \<and>
   fst (get_next_chunk sample_env (after_chunks sample_env 4 2 sample_session) 4) ''status''
     = Some (Str ''reading'') \<and>
   fst (get_next_chunk sample_env (after_chunks sample_env 4 2 sample_session) 4) ''chunk''
     = Some (Str ''rld'') \<and>
   read_position (snd (get_next_chunk sample_env (after_chunks sample_env 4 2 sample_session) 4))
     = 11 \<and>
   fst (get_next_chunk sample_env (after_chunks sample_env 4 3 sample_session) 4) ''status''
     = Some (Str ''done'') \<and>
   concat (map (\<lambda>j. take 4 (drop (j * 4) ''hello world'')) [0 ..< 3]) = ''hello world''"
proof -
  have n: "(0::int) < 4" by simp
  have c: "current_file_content sample_session \<noteq> []" by code_simp
  have p: "read_position sample_session = 0" by code_simp
  have xs: "current_file_content sample_session = ''hello world''" by code_simp
  have l: "int (length (current_file_content sample_session)) = 11" by code_simp
  have t: "translate_chunk sample_env sample_session ''rld'' = ''rld''" by code_simp
  have d: "take (nat 4) (drop (2 * nat 4) ''hello world'') = ''rld''" by code_simp
  have n4: "nat 4 = 4" by simp
  from get_next_chunk_partitions_content [OF n c p, of sample_env 2 3]
       get_next_chunk_partitions_content [OF n c p, of sample_env 3 3]
  show ?thesis unfolding l xs d n4 by (simp add: t)
qed

end
